theory Spec2Isabelle
  imports Main
begin

section \<open>The DomTree widget of lib/dom/domTree.js\<close>

text \<open>
  The widget keeps a table whose body holds one sizer row followed by one row per visible
  member. The model below follows domTree.js method by method. A JavaScript value is an
  element of the type variable \<open>'v\<close>, and \<open>==\<close> on values is equality on \<open>'v\<close>.
  A method that can throw returns a \<open>completion\<close> together with the tree as the method
  left it, because the mutations made before a throw stay.
\<close>

datatype exn = TypeError | Thrown string

datatype 'a completion = Normal 'a | Throw exn

text \<open>What a child fetch answers: an array, or a promise (named by a number).\<close>

datatype 'a arrayOrPromise = Array "'a list" | Promise nat

text \<open>One call of \<open>Trace.sysout\<close> or \<open>TraceError.sysout\<close>, with the message prefix.\<close>

datatype diag = Trace string | TraceError string

text \<open>
  The member object of \<open>createMember\<close>. \<open>ref\<close> is the identity of the object
  (\<open>getMemberRow\<close> compares members with \<open>==\<close>, by reference); \<open>hasProvider\<close> says
  that \<open>member.provider\<close> was set. The fields \<open>type\<close>, \<open>open\<close> and \<open>value\<close> are
  spelled \<open>mtype\<close>, \<open>mopen\<close> and \<open>mvalue\<close>.
\<close>

record 'v member =
  ref :: nat
  name :: string
  mtype :: string
  rowClass :: string
  mopen :: string
  level :: int
  hasChildren :: bool
  mvalue :: 'v
  hasProvider :: bool

text \<open>
  A rendered \<open>TR\<close>: its class list, the member bound to it by \<open>_repObject\<close> and its
  \<open>level\<close> attribute. The label and value cells only display; they are not modelled,
  and \<open>provider.getValue\<close> is taken to answer synchronously, as the comment in
  \<open>getValue\<close> asks.
\<close>

record 'v row =
  classList :: "string list"
  repObject :: "'v member option"
  levelAttr :: "int option"

text \<open>The data provider handed to the constructor. Each of its methods may throw.\<close>

record 'v dataProvider =
  getChildren :: "'v \<Rightarrow> exn + 'v arrayOrPromise"
  providerHasChildren :: "'v \<Rightarrow> exn + bool"
  getLabel :: "'v \<Rightarrow> exn + string"

text \<open>
  The argument of \<open>append\<close>: the template reads \<open>input.object\<close>, and \<open>append\<close> asks
  \<open>Array.isArray(input)\<close> and \<open>input.length\<close> (\<open>arrayLength\<close> is \<open>None\<close> when the input
  is not an array).
\<close>

record 'v input =
  object :: 'v
  arrayLength :: "nat option"

text \<open>
  The widget. \<open>element\<close> is the body of the rendered table, \<open>None\<close> before the first
  render. \<open>promises\<close> lists the callbacks attached by \<open>resolvePromise\<close> and not yet run,
  each with the promise and the object it was attached for. \<open>requested\<close> lists the
  objects \<open>provider.getChildren\<close> was called with, in order: the provider is a function
  here, and the list is what tells that it was asked. \<open>diagnostics\<close> is the output
  of the trace channel and \<open>allocated\<close> the number of member objects created so far.
  \<open>forIn\<close> and \<open>typeof\<close> are what the JavaScript runtime answers for
  \<open>for (var p in obj)\<close> (each property with \<open>obj[p]\<close>) and for \<open>typeof(obj)\<close>.
\<close>

record 'v domTree =
  provider :: "'v dataProvider option"
  memberProvider :: "('v \<Rightarrow> int \<Rightarrow> 'v member arrayOrPromise option) option"
  fetchedChildren :: "'v list option"
  input :: "'v input option"
  element :: "'v row list option"
  promises :: "(nat \<times> 'v) list"
  requested :: "'v list"
  diagnostics :: "diag list"
  allocated :: nat
  forIn :: "'v \<Rightarrow> (string \<times> 'v) list"
  typeof :: "'v \<Rightarrow> string"

subsection \<open>Class lists and the row templates\<close>

definition contains :: "'v row \<Rightarrow> string \<Rightarrow> bool" where
  "contains r c = (c \<in> set (classList r))"

definition add :: "'v row \<Rightarrow> string \<Rightarrow> 'v row" where
  "add r c = (if c \<in> set (classList r) then r else r\<lparr>classList := classList r @ [c]\<rparr>)"

definition remove :: "'v row \<Rightarrow> string \<Rightarrow> 'v row" where
  "remove r c = r\<lparr>classList := removeAll c (classList r)\<rparr>"

text \<open>The tokens of a \<open>class\<close> attribute, separated by spaces.\<close>

fun tokens :: "string \<Rightarrow> string \<Rightarrow> string list" where
  "tokens acc [] = (if acc = [] then [] else [acc])"
| "tokens acc (c # cs) =
     (if c = CHR '' '' then (if acc = [] then [] else [acc]) @ tokens [] cs
      else tokens (acc @ [c]) cs)"

definition sizerRowTag :: "'v row" where
  "sizerRowTag = \<lparr>classList = [], repObject = None, levelAttr = None\<rparr>"

text \<open>
  \<open>rowTag\<close>: class \<open>memberRow $member.open $member.type\Row\<close>, the classes
  \<open>hasChildren\<close> (when the member says so) and \<open>repIgnore\<close>, the member as
  \<open>repObject\<close> and its level as the \<open>level\<close> attribute.
\<close>

definition rowTag :: "'v member \<Rightarrow> 'v row" where
  "rowTag member =
     \<lparr>classList = tokens [] (''memberRow '' @ mopen member @ '' '' @ mtype member @ ''Row'')
        @ (if hasChildren member then [''hasChildren''] else []) @ [''repIgnore''],
      repObject = Some member,
      levelAttr = Some (level member)\<rparr>"

text \<open>
  Modelled from the spec: \<open>Reps.getRepObject\<close> (reps/reps.js) is not among the sources.
  A row is bound to exactly one member, and the lookup of a row answers that member; the
  comment in \<open>getRow\<close> says the same (``The repObject is a "member" object created in
  createMember method''). A row with no member bound, such as the sizer row, has none.
\<close>

definition getRepObject :: "'v row \<Rightarrow> 'v member option" where
  "getRepObject r = repObject r"

text \<open>\<open>parseInt\<close> of the \<open>level\<close> attribute; \<open>None\<close> is NaN (no attribute).\<close>

definition getRowLevel :: "'v row \<Rightarrow> int option" where
  "getRowLevel r = levelAttr r"

text \<open>\<open><=\<close> on numbers: false as soon as one side is NaN.\<close>

definition lessEq :: "int option \<Rightarrow> int option \<Rightarrow> bool" where
  "lessEq a b = (case a of None \<Rightarrow> False | Some x \<Rightarrow> (case b of None \<Rightarrow> False | Some y \<Rightarrow> x \<le> y))"

subsection \<open>Members\<close>

definition getType :: "'v \<Rightarrow> string" where
  "getType obj = ''dom''"

definition createMember :: "nat \<Rightarrow> string \<Rightarrow> string \<Rightarrow> 'v \<Rightarrow> int \<Rightarrow> bool \<Rightarrow> 'v member" where
  "createMember r ty nm val lvl hc =
     \<lparr>ref = r, name = nm, mtype = ty, rowClass = ''memberRow-'' @ ty, mopen = [],
      level = lvl, hasChildren = hc, mvalue = val, hasProvider = False\<rparr>"

definition hasProperties :: "'v domTree \<Rightarrow> 'v \<Rightarrow> bool" where
  "hasProperties t obj = (if typeof t obj = ''string'' then False else forIn t obj \<noteq> [])"

text \<open>
  \<open>resolvePromise\<close>: the callbacks are attached and, promises being always asynchronous
  (the comment at \<open>sync\<close>), \<open>result\<close> is still unset when the method returns, so the
  answer is the promise.
\<close>

definition resolvePromise :: "nat \<Rightarrow> 'v \<Rightarrow> 'v domTree \<Rightarrow> 'v arrayOrPromise \<times> 'v domTree" where
  "resolvePromise promise obj t = (Promise promise, t\<lparr>promises := promises t @ [(promise, obj)]\<rparr>)"

text \<open>
  \<open>fetchChildren\<close>: the \<open>try\<close> covers \<open>this.provider.getChildren(object)\<close>, so a missing
  provider is caught like a throwing one.
\<close>

definition fetchChildren :: "'v \<Rightarrow> 'v domTree \<Rightarrow> 'v arrayOrPromise \<times> 'v domTree" where
  "fetchChildren obj t =
     (case provider t of
        None \<Rightarrow>
          (Array [], t\<lparr>diagnostics := diagnostics t @ [TraceError ''domTree.fetchChildren; EXCEPTION'']\<rparr>)
      | Some p \<Rightarrow>
          (let t1 = t\<lparr>requested := requested t @ [obj]\<rparr> in
           case getChildren p obj of
             Inl e \<Rightarrow>
               (Array [],
                t1\<lparr>diagnostics := diagnostics t1 @ [TraceError ''domTree.fetchChildren; EXCEPTION'']\<rparr>)
           | Inr (Promise promise) \<Rightarrow> resolvePromise promise obj t1
           | Inr (Array children) \<Rightarrow> (Array children, t1)))"

text \<open>
  The loop of \<open>getMembers\<close> over the children of a provider. The third argument is the
  number of members allocated so far, the last one the array \<open>members\<close>.
\<close>

fun providerMembers ::
  "'v dataProvider \<Rightarrow> int \<Rightarrow> 'v list \<Rightarrow> nat \<Rightarrow> 'v member list \<Rightarrow> 'v member list completion \<times> nat" where
  "providerMembers p lvl [] n members = (Normal members, n)"
| "providerMembers p lvl (child # children) n members =
     (case providerHasChildren p child of
        Inl e \<Rightarrow> (Throw e, n)
      | Inr hc \<Rightarrow>
          (case getLabel p child of
             Inl e \<Rightarrow> (Throw e, n)
           | Inr nm \<Rightarrow>
               providerMembers p lvl children (Suc n)
                 (members @ [(createMember n (getType child) nm child lvl hc)\<lparr>hasProvider := True\<rparr>])))"

text \<open>
  The callback of \<open>getObjectProperties\<close> run over the properties of the object. Nothing
  in the callback throws, so the \<open>catch\<close> around it never runs.
\<close>

fun propertyMembers ::
  "'v domTree \<Rightarrow> int \<Rightarrow> (string \<times> 'v) list \<Rightarrow> nat \<Rightarrow> 'v member list \<Rightarrow> 'v member list \<times> nat" where
  "propertyMembers t lvl [] n members = (members, n)"
| "propertyMembers t lvl ((prop, val) # props) n members =
     propertyMembers t lvl props (Suc n)
       (members @ [createMember n (getType val) prop val lvl
                     (typeof t val = ''object'' \<and> hasProperties t val)])"

text \<open>\<open>getMembers(object, level)\<close>; the level is \<open>None\<close> when it is not passed or NaN.\<close>

definition getMembers ::
  "'v \<Rightarrow> int option \<Rightarrow> 'v domTree \<Rightarrow> 'v member arrayOrPromise completion \<times> 'v domTree" where
  "getMembers obj level0 t =
     (let lvl = (case level0 of None \<Rightarrow> 0 | Some l \<Rightarrow> l) in
      case (case memberProvider t of None \<Rightarrow> None | Some mp \<Rightarrow> mp obj lvl) of
        Some members \<Rightarrow> (Normal members, t)
      | None \<Rightarrow>
          (case provider t of
             Some p \<Rightarrow>
               (case (case fetchedChildren t of
                        Some fetched \<Rightarrow> (Array fetched, t)
                      | None \<Rightarrow> fetchChildren obj t) of
                  (children, t1) \<Rightarrow>
                    (let t2 = t1\<lparr>fetchedChildren := None\<rparr> in
                     case children of
                       Promise promise \<Rightarrow> (Normal (Promise promise), t2)
                     | Array cs \<Rightarrow>
                         (case providerMembers p lvl cs (allocated t2) [] of
                            (Throw e, n) \<Rightarrow> (Throw e, t2\<lparr>allocated := n\<rparr>)
                          | (Normal members, n) \<Rightarrow> (Normal (Array members), t2\<lparr>allocated := n\<rparr>))))
           | None \<Rightarrow>
               (case propertyMembers t lvl (forIn t obj) (allocated t) [] of
                  (members, n) \<Rightarrow> (Normal (Array members), t\<lparr>allocated := n\<rparr>))))"

text \<open>
  \<open>memberIterator\<close>: the template loop must get an array, so a promise is answered
  by the empty array.
\<close>

definition memberIterator :: "'v \<Rightarrow> 'v domTree \<Rightarrow> 'v member list completion \<times> 'v domTree" where
  "memberIterator obj t =
     (case getMembers obj None t of
        (Throw e, t1) \<Rightarrow> (Throw e, t1)
      | (Normal (Promise promise), t1) \<Rightarrow> (Normal [], t1)
      | (Normal (Array members), t1) \<Rightarrow> (Normal members, t1))"

subsection \<open>Rows of the table body\<close>

text \<open>
  A row is named by its position in the table body; \<open>None\<close> is \<open>null\<close>. A position with
  no row behind it is read as \<open>null\<close> as well.
\<close>

definition rowAt :: "nat option \<Rightarrow> 'v domTree \<Rightarrow> (nat \<times> 'v row) option" where
  "rowAt row t =
     (case row of
        None \<Rightarrow> None
      | Some i \<Rightarrow>
          (case element t of
             None \<Rightarrow> None
           | Some rows \<Rightarrow> if i < length rows then Some (i, rows ! i) else None))"

definition setRow :: "nat \<Rightarrow> 'v row \<Rightarrow> 'v domTree \<Rightarrow> 'v domTree" where
  "setRow i r t = t\<lparr>element := map_option (\<lambda>rows. rows[i := r]) (element t)\<rparr>"

text \<open>\<open>row.classList.add(c)\<close> on the row at a position.\<close>

definition addClass :: "nat \<Rightarrow> string \<Rightarrow> 'v domTree \<Rightarrow> 'v domTree" where
  "addClass i c t = t\<lparr>element := map_option (\<lambda>rows. rows[i := add (rows ! i) c]) (element t)\<rparr>"

text \<open>
  Modelled from the spec: \<open>insertRows\<close> belongs to the template engine
  (core/domplate.js), which is not among the sources. With a row as the anchor the new
  rows are mounted immediately below it, in order.
\<close>

definition insertRows :: "'v row list \<Rightarrow> nat \<Rightarrow> 'v domTree \<Rightarrow> 'v domTree" where
  "insertRows new i t =
     t\<lparr>element := map_option (\<lambda>rows. take (Suc i) rows @ new @ drop (Suc i) rows) (element t)\<rparr>"

text \<open>
  Modelled from the spec: \<open>insertRows\<close> with the table body as the anchor, as
  \<open>doUpdateObject\<close> calls it for the root, belongs to the template engine
  (core/domplate.js), which is not among the sources. For the root the full depth-0
  member list is regenerated and remounted, and the row count afterwards is that of the
  new members whatever it was before: the member rows mounted so far give way to the new
  ones, and the rows that are no member rows (the sizer row) stay.
\<close>

definition insertRowsInBody :: "'v row list \<Rightarrow> 'v domTree \<Rightarrow> 'v domTree" where
  "insertRowsInBody new t =
     t\<lparr>element := map_option (\<lambda>rows. filter (\<lambda>r. \<not> contains r ''memberRow'') rows @ new)
                    (element t)\<rparr>"

text \<open>
  The loop of \<open>toggleRow\<close> that removes the rows after the collapsed one: its argument is
  the list of the following siblings, its result what is left of them.
\<close>

fun removeChildRows :: "int option \<Rightarrow> 'v row list \<Rightarrow> 'v row list" where
  "removeChildRows lvl [] = []"
| "removeChildRows lvl (firstRow # siblings) =
     (if lessEq (getRowLevel firstRow) lvl then firstRow # siblings
      else removeChildRows lvl siblings)"

fun firstIndex :: "('a \<Rightarrow> bool) \<Rightarrow> 'a list \<Rightarrow> nat option" where
  "firstIndex P [] = None"
| "firstIndex P (x # xs) = (if P x then Some 0 else map_option Suc (firstIndex P xs))"

text \<open>
  \<open>getRow\<close> and \<open>getMemberRow\<close>: the first row of class \<open>memberRow\<close> whose member has
  the value, or is the member. \<open>undefined\<close> (not rendered) and \<open>null\<close> (not found) are
  both \<open>None\<close>: every caller only tests the answer for truth.
\<close>

definition getRow :: "'v \<Rightarrow> 'v domTree \<Rightarrow> nat option" where
  "getRow obj t =
     (case element t of
        None \<Rightarrow> None
      | Some rows \<Rightarrow>
          firstIndex (\<lambda>r. contains r ''memberRow'' \<and>
            (case getRepObject r of None \<Rightarrow> False | Some member \<Rightarrow> mvalue member = obj)) rows)"

definition getMemberRow :: "'v member \<Rightarrow> 'v domTree \<Rightarrow> nat option" where
  "getMemberRow member t =
     (case element t of
        None \<Rightarrow> None
      | Some rows \<Rightarrow>
          firstIndex (\<lambda>r. contains r ''memberRow'' \<and>
            (case getRepObject r of None \<Rightarrow> False | Some m \<Rightarrow> ref m = ref member)) rows)"

subsection \<open>toggleRow\<close>

definition toggleRow :: "nat option \<Rightarrow> bool \<Rightarrow> 'v domTree \<Rightarrow> nat option completion \<times> 'v domTree" where
  "toggleRow row forceOpen t =
     (case rowAt row t of
        None \<Rightarrow> (Normal None, t)
      | Some (i, r) \<Rightarrow>
          (case getRepObject r of
             None \<Rightarrow> (Normal None, t)
           | Some member \<Rightarrow>
               (let lvl = getRowLevel r in
                if forceOpen \<and> contains r ''opened'' then (Normal None, t)
                else if contains r ''opened'' then
                  (Normal None,
                   t\<lparr>element := map_option
                       (\<lambda>rows. take i rows @ remove r ''opened'' # removeChildRows lvl (drop (Suc i) rows))
                       (element t)\<rparr>)
                else if \<not> hasChildren member then (Normal None, t)
                else
                  (case getMembers (mvalue member) (map_option (\<lambda>l. l + 1) lvl)
                          (addClass i ''opened'' t) of
                     (Throw e, t1) \<Rightarrow> (Throw e, t1)
                   | (Normal members, t1) \<Rightarrow>
                       (let t2 = t1\<lparr>diagnostics := diagnostics t1 @ [Trace ''DomTree.toggleRow; level'']\<rparr> in
                        case members of
                          Array ms \<Rightarrow>
                            if ms \<noteq> [] then (Normal None, insertRows (map rowTag ms) i t2)
                            else (Normal None, t2)
                        | Promise promise \<Rightarrow>
                            (Normal (Some promise), addClass i ''spinning'' t2))))))"

subsection \<open>Lookup and forward\<close>

definition expandMember :: "'v member \<Rightarrow> 'v domTree \<Rightarrow> nat option completion \<times> 'v domTree" where
  "expandMember member t =
     (case getMemberRow member t of
        None \<Rightarrow> (Normal None, t)
      | Some i \<Rightarrow> toggleRow (Some i) True t)"

definition expandObject :: "'v \<Rightarrow> 'v domTree \<Rightarrow> nat option completion \<times> 'v domTree" where
  "expandObject obj t =
     (case getRow obj t of
        None \<Rightarrow>
          (Normal None,
           t\<lparr>diagnostics := diagnostics t @ [TraceError ''domTree.expandObject; ERROR no such object'']\<rparr>)
      | Some i \<Rightarrow> toggleRow (Some i) True t)"

text \<open>
  \<open>collapseObject\<close> reads \<open>row.classList\<close> without testing the row: with no row, that
  read throws a TypeError.
\<close>

definition collapseObject :: "'v \<Rightarrow> 'v domTree \<Rightarrow> unit completion \<times> 'v domTree" where
  "collapseObject obj t =
     (case rowAt (getRow obj t) t of
        None \<Rightarrow> (Throw TypeError, t)
      | Some (i, r) \<Rightarrow>
          if contains r ''opened'' then
            (case toggleRow (Some i) False t of
               (Throw e, t1) \<Rightarrow> (Throw e, t1)
             | (Normal promise, t1) \<Rightarrow> (Normal (), t1))
          else (Normal (), t))"

subsection \<open>updateObject\<close>

text \<open>
  \<open>doUpdateObject\<close>. With the root object the new rows are inserted with the table body
  as the anchor. The template loop wants an array (see \<open>memberIterator\<close>); the loop
  itself is not among the sources, and handing it a promise is taken to be a fault, which
  \<open>updateObject\<close> catches. In the other branch the member is changed in place, so the
  row still bound to it sees the new \<open>hasChildren\<close>; the new row is inserted after the
  old one, which is then removed, so it takes its place.
\<close>

definition doUpdateObject :: "'v \<Rightarrow> 'v domTree \<Rightarrow> unit completion \<times> 'v domTree" where
  "doUpdateObject obj t =
     (let row = getRow obj t in
      case input t of
        None \<Rightarrow> (Throw TypeError, t)
      | Some inp \<Rightarrow>
          if object inp = obj then
            (case getMembers obj None t of
               (Throw e, t1) \<Rightarrow> (Throw e, t1)
             | (Normal members, t1) \<Rightarrow>
                 (case element t1 of
                    None \<Rightarrow> (Throw TypeError, t1)
                  | Some rows \<Rightarrow>
                      (case members of
                         Promise promise \<Rightarrow> (Throw TypeError, t1)
                       | Array ms \<Rightarrow> (Normal (), insertRowsInBody (map rowTag ms) t1))))
          else
            (case rowAt row t of
               None \<Rightarrow>
                 (Normal (),
                  t\<lparr>diagnostics := diagnostics t @
                      [Trace ''domTree.updateObject; This object can't be updated'']\<rparr>)
             | Some (i, r) \<Rightarrow>
                 (case getRepObject r of
                    None \<Rightarrow> (Throw TypeError, t)
                  | Some member0 \<Rightarrow>
                      (case (case provider t of
                               None \<Rightarrow> Inl TypeError
                             | Some p \<Rightarrow> providerHasChildren p obj) of
                         Inl e \<Rightarrow> (Throw e, t)
                       | Inr hc \<Rightarrow>
                           (let member = member0\<lparr>hasChildren := hc\<rparr>;
                                t1 = setRow i (r\<lparr>repObject := Some member\<rparr>) t;
                                expanded = contains r ''opened'' in
                            case (if expanded then toggleRow (Some i) False t1 else (Normal None, t1)) of
                              (Throw e, t2) \<Rightarrow> (Throw e, t2)
                            | (Normal promise, t2) \<Rightarrow>
                                (let t3 = t2\<lparr>diagnostics := diagnostics t2 @ [Trace ''domTree.updateObject;'']\<rparr>;
                                     t4 = setRow i (rowTag member) t3 in
                                 if expanded then
                                   (if hasChildren member then
                                      (case expandObject obj t4 of
                                         (Throw e, t5) \<Rightarrow> (Throw e, t5)
                                       | (Normal promise', t5) \<Rightarrow> (Normal (), t5))
                                    else collapseObject obj t4)
                                 else (Normal (), t4)))))))"

definition updateObject :: "'v \<Rightarrow> 'v domTree \<Rightarrow> 'v domTree" where
  "updateObject obj t =
     (case doUpdateObject obj t of
        (Throw e, t1) \<Rightarrow> t1\<lparr>diagnostics := diagnostics t1 @ [TraceError ''domTree.updateObject; EXCEPTION'']\<rparr>
      | (Normal u, t1) \<Rightarrow> t1)"

subsection \<open>The callbacks attached by resolvePromise\<close>

text \<open>
  The two functions passed to \<open>promise.then\<close>, as they run once \<open>sync\<close> is false:
  \<open>onResolved\<close> with the object the promise was attached for and the value it
  resolved to, \<open>onRejected\<close> on a rejection.
\<close>

definition onResolved :: "'v \<Rightarrow> 'v list \<Rightarrow> 'v domTree \<Rightarrow> 'v domTree" where
  "onResolved obj val t =
     updateObject obj
       (t\<lparr>diagnostics := diagnostics t @ [Trace ''domTree.resolvePromise; done''],
          fetchedChildren := Some val\<rparr>)"

definition onRejected :: "'v domTree \<Rightarrow> 'v domTree" where
  "onRejected t = t\<lparr>diagnostics := diagnostics t @ [TraceError ''domTree.onResolvePromise; ERROR'']\<rparr>"

text \<open>
  A promise settles: the first callback attached to it is taken off the list and run.
  A promise with no callback attached leaves the tree alone.
\<close>

definition settleResolved :: "nat \<Rightarrow> 'v list \<Rightarrow> 'v domTree \<Rightarrow> 'v domTree" where
  "settleResolved promise val t =
     (case map_of (promises t) promise of
        None \<Rightarrow> t
      | Some obj \<Rightarrow> onResolved obj val (t\<lparr>promises := remove1 (promise, obj) (promises t)\<rparr>))"

definition settleRejected :: "nat \<Rightarrow> 'v domTree \<Rightarrow> 'v domTree" where
  "settleRejected promise t =
     (case map_of (promises t) promise of
        None \<Rightarrow> t
      | Some obj \<Rightarrow> onRejected (t\<lparr>promises := remove1 (promise, obj) (promises t)\<rparr>))"

subsection \<open>Rendering\<close>

text \<open>
  \<open>append\<close> (here \<open>append_tree\<close>): the template \<open>tag\<close> renders the sizer row and then
  one row per member of \<open>memberIterator\<close>; \<open>this.element.firstChild.firstChild\<close> is the
  first row of that body. \<open>replace\<close> clears the container before; the container holds
  nothing the widget reads back, so it is not part of the state.
\<close>

definition firstChild :: "'v domTree \<Rightarrow> nat option" where
  "firstChild t = (case element t of None \<Rightarrow> None | Some rows \<Rightarrow> if rows = [] then None else Some 0)"

definition append_tree :: "'v input \<Rightarrow> bool \<Rightarrow> 'v domTree \<Rightarrow> unit completion \<times> 'v domTree" where
  "append_tree inp noExpand t =
     (case memberIterator (object inp) (t\<lparr>input := Some inp\<rparr>) of
        (Throw e, t1) \<Rightarrow> (Throw e, t1)
      | (Normal members, t1) \<Rightarrow>
          (let t2 = t1\<lparr>element := Some (sizerRowTag # map rowTag members)\<rparr> in
           if noExpand then (Normal (), t2)
           else
             (let val = (case arrayLength inp of None \<Rightarrow> False | Some n \<Rightarrow> n > 2);
                  firstRow = firstChild t2 in
              if firstRow \<noteq> None \<and> \<not> val then
                (case toggleRow firstRow False t2 of
                   (Throw e, t3) \<Rightarrow> (Throw e, t3)
                 | (Normal promise, t3) \<Rightarrow> (Normal (), t3))
              else (Normal (), t2))))"

definition replace :: "'v input \<Rightarrow> bool \<Rightarrow> 'v domTree \<Rightarrow> unit completion \<times> 'v domTree" where
  "replace inp noExpand t = append_tree inp noExpand t"

definition isEmpty :: "'v domTree \<Rightarrow> bool" where
  "isEmpty t =
     (case element t of
        None \<Rightarrow> True
      | Some rows \<Rightarrow> filter (\<lambda>r. contains r ''memberRow'') rows = [])"

text \<open>The constructor: only the provider is set.\<close>

definition DomTree ::
  "'v dataProvider option \<Rightarrow> ('v \<Rightarrow> (string \<times> 'v) list) \<Rightarrow> ('v \<Rightarrow> string) \<Rightarrow> 'v domTree" where
  "DomTree p fi ty =
     \<lparr>provider = p, memberProvider = None, fetchedChildren = None, input = None, element = None,
      promises = [], requested = [], diagnostics = [], allocated = 0, forIn = fi, typeof = ty\<rparr>"

subsection \<open>The notions the properties are stated with\<close>

text \<open>
  The three states of a row, read off the two class marks \<open>toggleRow\<close> keeps: a row
  without \<open>opened\<close> is collapsed, an opened row with the spinner waits for its children,
  an opened row without it is expanded.
\<close>

datatype rowState = Collapsed | Expanded | Pending

definition rowState :: "'v row \<Rightarrow> rowState" where
  "rowState r =
     (if contains r ''opened'' then (if contains r ''spinning'' then Pending else Expanded)
      else Collapsed)"

definition rowsOf :: "'v domTree \<Rightarrow> 'v row list" where
  "rowsOf t = (case element t of None \<Rightarrow> [] | Some rows \<Rightarrow> rows)"

text \<open>The rows \<open>querySelectorAll(".memberRow")\<close> finds.\<close>

definition memberRows :: "'v domTree \<Rightarrow> 'v row list" where
  "memberRows t = filter (\<lambda>r. contains r ''memberRow'') (rowsOf t)"

text \<open>The member object (by identity) and the value bound to each row of the body, in order.\<close>

definition mounted :: "'v domTree \<Rightarrow> (nat \<times> 'v) option list" where
  "mounted t = map (\<lambda>r. map_option (\<lambda>m. (ref m, mvalue m)) (repObject r)) (rowsOf t)"

text \<open>A row whose level attribute is a number above \<open>l\<close>.\<close>

definition deeper :: "int \<Rightarrow> 'v row \<Rightarrow> bool" where
  "deeper l r = (case levelAttr r of None \<Rightarrow> False | Some k \<Rightarrow> l < k)"

definition hasLevel :: "'v row \<Rightarrow> bool" where
  "hasLevel r = (case levelAttr r of None \<Rightarrow> False | Some k \<Rightarrow> True)"


subsection \<open>A tree to run the operations on\<close>

text \<open>
  Values are numbers. The root 0 has the children 1, 2, 4 and 6. The children of 1 come
  by promise 7; 2 has the one child 3, a leaf; 4 has the one child 5, whose label cannot
  be read; asking for the children of 6 throws. The root 10 has the children 2 and 1.
\<close>

definition exampleProvider :: "nat dataProvider" where
  "exampleProvider =
     \<lparr>getChildren = (\<lambda>v.
        if v = 0 then Inr (Array [1, 2, 4, 6])
        else if v = 1 then Inr (Promise 7)
        else if v = 2 then Inr (Array [3])
        else if v = 4 then Inr (Array [5])
        else if v = 6 then Inl (Thrown ''getChildren'')
        else if v = 10 then Inr (Array [2, 1])
        else Inr (Array [])),
      providerHasChildren = (\<lambda>v. Inr (v \<in> {1, 2, 4, 6})),
      getLabel = (\<lambda>v. if v = 5 then Inl (Thrown ''getLabel'') else Inr ''item'')\<rparr>"

definition newTree :: "nat domTree" where
  "newTree = DomTree (Some exampleProvider) (\<lambda>v. []) (\<lambda>v. ''number'')"

text \<open>The root 0 rendered without the automatic expansion: the sizer row and four rows.\<close>

definition exampleTree :: "nat domTree" where
  "exampleTree = snd (replace \<lparr>object = 0, arrayLength = None\<rparr> True newTree)"

text \<open>The row of 1 toggled: it waits for promise 7.\<close>

definition pendingTree :: "nat domTree" where
  "pendingTree = snd (toggleRow (Some 1) False exampleTree)"

text \<open>The row of 2 toggled: its child 3 is mounted below it.\<close>

definition expandedTree :: "nat domTree" where
  "expandedTree = snd (toggleRow (Some 2) False exampleTree)"

text \<open>
  The row \<open>rowTag\<close> renders for a member the example provider gives rise to, followed
  by the marks \<open>toggleRow\<close> has added since.
\<close>

definition exampleRow :: "nat \<Rightarrow> nat \<Rightarrow> int \<Rightarrow> bool \<Rightarrow> string list \<Rightarrow> nat row" where
  "exampleRow n v l hc marks =
     \<lparr>classList = [''memberRow'', ''domRow''] @ (if hc then [''hasChildren''] else [])
        @ [''repIgnore''] @ marks,
      repObject = Some ((createMember n ''dom'' ''item'' v l hc)\<lparr>hasProvider := True\<rparr>),
      levelAttr = Some l\<rparr>"

section \<open>Facts about the model\<close>



lemma opened_iff_not_Collapsed: "contains r ''opened'' \<longleftrightarrow> rowState r \<noteq> Collapsed"
  by (simp add: rowState_def)

lemma rowAt_SomeD:
  "rowAt (Some i) t = Some (j, r) \<Longrightarrow> \<exists>rows. element t = Some rows \<and> i < length rows \<and> j = i \<and> r = rows ! i"
  by (auto simp: rowAt_def split: option.splits if_splits)

lemma removeChildRows_dropWhile:
  "\<forall>x \<in> set rows. hasLevel x \<Longrightarrow> removeChildRows (Some l) rows = dropWhile (deeper l) rows"
  by (induction rows)
     (auto simp: lessEq_def getRowLevel_def deeper_def hasLevel_def split: option.splits)

subsection \<open>The example tree, evaluated\<close>

lemma exampleTree_rows:
  "element exampleTree =
     Some [sizerRowTag, exampleRow 0 1 0 True [], exampleRow 1 2 0 True [],
           exampleRow 2 4 0 True [], exampleRow 3 6 0 True []]"
  by code_simp

lemma pendingTree_rows:
  "element pendingTree =
     Some [sizerRowTag, exampleRow 0 1 0 True [''opened'', ''spinning''], exampleRow 1 2 0 True [],
           exampleRow 2 4 0 True [], exampleRow 3 6 0 True []]"
  by code_simp

lemma expandedTree_rows:
  "element expandedTree =
     Some [sizerRowTag, exampleRow 0 1 0 True [], exampleRow 1 2 0 True [''opened''],
           exampleRow 4 3 1 False [], exampleRow 2 4 0 True [], exampleRow 3 6 0 True []]"
  by code_simp

lemma exampleTree_fields:
  "provider exampleTree = Some exampleProvider" "memberProvider exampleTree = None"
  "fetchedChildren exampleTree = None" "input exampleTree = Some \<lparr>object = 0, arrayLength = None\<rparr>"
  by (simp_all add: exampleTree_def newTree_def DomTree_def replace_def append_tree_def
      memberIterator_def getMembers_def fetchChildren_def resolvePromise_def exampleProvider_def)

lemma newTree_fields:
  "provider newTree = Some exampleProvider" "memberProvider newTree = None"
  "fetchedChildren newTree = None" "promises newTree = []"
  by (simp_all add: newTree_def DomTree_def)

lemma pendingTree_promises: "map_of (promises pendingTree) 7 = Some 1"
  by code_simp

subsection \<open>Lookups that miss, and updates of a closed row\<close>

lemma expandObject_miss:
  "getRow obj t = None \<Longrightarrow>
   expandObject obj t =
     (Normal None,
      t\<lparr>diagnostics := diagnostics t @ [TraceError ''domTree.expandObject; ERROR no such object'']\<rparr>)"
  by (simp add: expandObject_def)

lemma expandMember_miss: "getMemberRow member t = None \<Longrightarrow> expandMember member t = (Normal None, t)"
  by (simp add: expandMember_def)

lemma collapseObject_miss: "getRow obj t = None \<Longrightarrow> collapseObject obj t = (Throw TypeError, t)"
  by (simp add: collapseObject_def rowAt_def)

text \<open>
  \<open>updateObject\<close> on an object that is not the root and whose row, if there is one, is
  not opened: the body keeps the same members in the same order.
\<close>

lemma updateObject_closed_row:
  assumes "input t = Some inp" and "object inp \<noteq> obj"
    and "\<forall>i r. rowAt (getRow obj t) t = Some (i, r) \<longrightarrow> \<not> contains r ''opened''"
  shows "mounted (updateObject obj t) = mounted t"
proof (cases "rowAt (getRow obj t) t")
  case None
  then show ?thesis using assms(1,2)
    by (simp add: updateObject_def doUpdateObject_def mounted_def rowsOf_def)
next
  case (Some a)
  obtain i r where a: "a = (i, r)" by (cases a)
  with Some assms(3) have c: "\<not> contains r ''opened''" by simp
  from Some a obtain rows where r: "element t = Some rows" "i < length rows" "r = rows ! i"
    by (auto simp: rowAt_def split: option.splits if_splits)
  have upd: "map (\<lambda>r. map_option (\<lambda>m. (ref m, mvalue m)) (repObject r))
               (rows[i := rowTag (m\<lparr>hasChildren := hc\<rparr>)]) =
             map (\<lambda>r. map_option (\<lambda>m. (ref m, mvalue m)) (repObject r)) rows"
    if "repObject (rows ! i) = Some m" for m hc
    using r(2) that by (simp add: map_update rowTag_def list_update_same_conv)
  show ?thesis using assms(1,2) Some a c r upd
    by (auto simp: updateObject_def doUpdateObject_def mounted_def rowsOf_def setRow_def
        getRepObject_def split: option.splits sum.splits)
qed

text \<open>
  A fetch that resolves while the row of its object is collapsed, or gone, mounts nothing
  at that moment.
\<close>

lemma onResolved_collapsed_mounts_nothing:
  assumes "input t = Some inp" and "object inp \<noteq> obj"
    and "\<forall>i r. rowAt (getRow obj t) t = Some (i, r) \<longrightarrow> rowState r = Collapsed"
  shows "mounted (onResolved obj val t) = mounted t"
proof -
  define t0 where "t0 = t\<lparr>diagnostics := diagnostics t @ [Trace ''domTree.resolvePromise; done''],
          fetchedChildren := Some val\<rparr>"
  have g: "getRow obj t0 = getRow obj t" by (simp add: t0_def getRow_def)
  have ra: "rowAt x t0 = rowAt x t" for x by (simp add: t0_def rowAt_def split: option.splits)
  have m0: "mounted t0 = mounted t" by (simp add: t0_def mounted_def rowsOf_def)
  have i0: "input t0 = Some inp" using assms(1) by (simp add: t0_def)
  have "\<forall>i r. rowAt (getRow obj t0) t0 = Some (i, r) \<longrightarrow> \<not> contains r ''opened''"
    using assms(3) by (auto simp: g ra rowState_def split: if_splits)
  from updateObject_closed_row [OF i0 assms(2) this] m0 show ?thesis
    by (simp add: onResolved_def t0_def)
qed

text \<open>
  Whatever the input, the row \<open>append\<close> toggles is the sizer row, which has no member:
  the body is left as rendered.
\<close>

lemma append_tree_toggles_sizer_row:
  assumes "memberIterator (object inp) (t\<lparr>input := Some inp\<rparr>) = (Normal members, t1)"
  shows "append_tree inp noExpand t = (Normal (), t1\<lparr>element := Some (sizerRowTag # map rowTag members)\<rparr>)"
  using assms
  by (simp add: append_tree_def firstChild_def toggleRow_def rowAt_def getRepObject_def
      sizerRowTag_def Let_def)

section \<open>The claims\<close>

text \<open>
  C1. A child fetch is pending for a row, the row is collapsed before the fetch resolves,
  and the fetch resolves: the resolved children are to be discarded and no row mounted
  for them. In the example the row of 1 waits for promise 7 and is collapsed; the promise
  then resolves to 8 and 9. No row is mounted at that moment, but the children stay in
  \<open>fetchedChildren\<close>, and toggling the row of 2 mounts 8 and 9 below it (the child of 2
  is 3); the provider was asked for the children of 0 and of 1 only.
\<close>

theorem resolved_children_mounted_under_other_row:
  "mounted (settleResolved 7 [8, 9] (snd (toggleRow (Some 1) False pendingTree))) = mounted exampleTree \<and>
   fetchedChildren (settleResolved 7 [8, 9] (snd (toggleRow (Some 1) False pendingTree))) = Some [8, 9] \<and>
   mounted (snd (toggleRow (Some 2) False
      (settleResolved 7 [8, 9] (snd (toggleRow (Some 1) False pendingTree))))) =
     [None, Some (0, 1), Some (1, 2), Some (4, 8), Some (5, 9), Some (2, 4), Some (3, 6)] \<and>
   requested (snd (toggleRow (Some 2) False
      (settleResolved 7 [8, 9] (snd (toggleRow (Some 1) False pendingTree))))) = [0, 1]"
  by code_simp

text \<open>
  C2. Collapsing an opened row \<open>r\<close> (toggleRow without forceOpen) removes the rows right
  after \<open>r\<close> whose level is above the level of \<open>r\<close>, up to the first row whose level
  is not, or to the end of the body. The rows before \<open>r\<close> and the rows from that first
  row on stay as they are; \<open>r\<close> loses the mark \<open>opened\<close>; nothing else in the tree
  changes. Every row after \<open>r\<close> is taken to carry a level, as every rendered member row
  does.
\<close>

theorem toggleRow_collapse:
  assumes "element t = Some rows" and "i < length rows"
    and "getRepObject (rows ! i) = Some member"
    and "rowState (rows ! i) \<noteq> Collapsed"
    and "levelAttr (rows ! i) = Some l"
    and "\<forall>x \<in> set (drop (Suc i) rows). hasLevel x"
  shows "toggleRow (Some i) False t =
           (Normal None,
            t\<lparr>element := Some (take i rows @ remove (rows ! i) ''opened'' #
                 dropWhile (deeper l) (drop (Suc i) rows))\<rparr>)"
proof -
  from assms(4) have "contains (rows ! i) ''opened''"
    by (simp add: opened_iff_not_Collapsed)
  with assms show ?thesis
    by (simp add: toggleRow_def rowAt_def getRowLevel_def removeChildRows_dropWhile)
qed

theorem toggleRow_collapse_witness:
  "toggleRow (Some 2) False expandedTree =
     (Normal None,
      expandedTree\<lparr>element := Some [sizerRowTag, exampleRow 0 1 0 True [], exampleRow 1 2 0 True [],
        exampleRow 2 4 0 True [], exampleRow 3 6 0 True []]\<rparr>)"
  using toggleRow_collapse [OF expandedTree_rows, of 2 _ 0]
  by (simp add: exampleRow_def getRepObject_def rowState_def contains_def hasLevel_def deeper_def
      remove_def)

text \<open>
  C3, as amended. When a child fetch is rejected, the widget reports the failure on the
  diagnostic channel and leaves the table body as it is: no child row is mounted, and
  every row keeps its marks (a row that was waiting stays marked opened and spinning).
\<close>

theorem settleRejected_reports_only:
  assumes "map_of (promises t) promise = Some obj"
  shows "element (settleRejected promise t) = element t \<and>
         diagnostics (settleRejected promise t) =
           diagnostics t @ [TraceError ''domTree.onResolvePromise; ERROR'']"
  using assms by (simp add: settleRejected_def onRejected_def)

theorem settleRejected_reports_only_witness:
  "map_of (promises pendingTree) 7 = Some 1 \<and>
   element (settleRejected 7 pendingTree) = element pendingTree \<and>
   diagnostics (settleRejected 7 pendingTree) =
     diagnostics pendingTree @ [TraceError ''domTree.onResolvePromise; ERROR'']"
  using settleRejected_reports_only [OF pendingTree_promises] pendingTree_promises by simp

text \<open>
  C3 as stated fails: after promise 7 is rejected, the row of 1, which waited for it, is
  still in the pending state and not collapsed.
\<close>

theorem rejected_fetch_row_stays_pending:
  "map_of (promises pendingTree) 7 = Some 1 \<and>
   map rowState (rowsOf (settleRejected 7 pendingTree)) =
     [Collapsed, Pending, Collapsed, Collapsed, Collapsed]"
  by code_simp

text \<open>
  C4. ExpandMember, ExpandObject and CollapseObject are to do nothing, and throw nothing,
  when no mounted row matches. \<open>expandMember\<close> and \<open>expandObject\<close> do so
  (\<open>expandMember_miss\<close>, \<open>expandObject_miss\<close>); \<open>collapseObject\<close> throws a TypeError:
  the example tree has no row for 42.
\<close>

theorem collapseObject_miss_throws:
  "getRow 42 exampleTree = None \<and> fst (collapseObject 42 exampleTree) = Throw TypeError"
  by code_simp



text \<open>
  C6. Render is to expand the first root row, unless told not to or handed an array of
  more than two elements. The root 10 (not an array) has the children 2 and 1, and 2 has
  the child 3; rendered with the automatic expansion on, the body holds the sizer row
  and the two rows of 2 and 1, both collapsed, and no row for 3: the row toggled is the
  sizer row (\<open>append_tree_toggles_sizer_row\<close>).
\<close>

theorem render_expands_no_row:
  "mounted (snd (replace \<lparr>object = 10, arrayLength = None\<rparr> False newTree)) =
     [None, Some (0, 2), Some (1, 1)] \<and>
   map rowState (rowsOf (snd (replace \<lparr>object = 10, arrayLength = None\<rparr> False newTree))) =
     [Collapsed, Collapsed, Collapsed]"
  by code_simp

text \<open>
  C7, as amended. When \<open>getChildren\<close> of the provider throws during child retrieval, the
  fault is caught in \<open>fetchChildren\<close>, reported, and treated as no children: toggling
  the collapsed row completes without throwing, marks the row opened and mounts no row.
  (The tree has no member hook and holds no children fetched earlier.)
\<close>

theorem toggleRow_getChildren_throws:
  assumes "rowAt (Some i) t = Some (i, r)" and "getRepObject r = Some member"
    and "hasChildren member" and "rowState r = Collapsed"
    and "memberProvider t = None" and "fetchedChildren t = None"
    and "provider t = Some p" and "getChildren p (mvalue member) = Inl e"
  shows "toggleRow (Some i) forceOpen t =
           (Normal None,
            (addClass i ''opened'' t)\<lparr>requested := requested t @ [mvalue member],
               diagnostics := diagnostics t @
                 [TraceError ''domTree.fetchChildren; EXCEPTION'', Trace ''DomTree.toggleRow; level''],
               fetchedChildren := None\<rparr>) \<and>
         mounted (snd (toggleRow (Some i) forceOpen t)) = mounted t"
proof -
  from assms(4) have c: "\<not> contains r ''opened''"
    by (simp add: opened_iff_not_Collapsed)
  have g: "getMembers (mvalue member) lvl (addClass i ''opened'' t) =
      (Normal (Array []), (addClass i ''opened'' t)\<lparr>requested := requested t @ [mvalue member],
                 diagnostics := diagnostics t @
                 [TraceError ''domTree.fetchChildren; EXCEPTION''], fetchedChildren := None\<rparr>)" for lvl
    using assms(5-8) by (simp add: getMembers_def fetchChildren_def addClass_def)
  have 1: "toggleRow (Some i) forceOpen t =
           (Normal None,
            (addClass i ''opened'' t)\<lparr>requested := requested t @ [mvalue member],
               diagnostics := diagnostics t @
                 [TraceError ''domTree.fetchChildren; EXCEPTION'', Trace ''DomTree.toggleRow; level''],
               fetchedChildren := None\<rparr>)"
    using assms(1-3) c by (simp add: toggleRow_def g)
  from rowAt_SomeD [OF assms(1)] obtain rows
    where r: "element t = Some rows" "i < length rows" "r = rows ! i" by blast
  have "map (\<lambda>r. map_option (\<lambda>m. (ref m, mvalue m)) (repObject r)) (rows[i := add (rows ! i) ''opened'']) =
        map (\<lambda>r. map_option (\<lambda>m. (ref m, mvalue m)) (repObject r)) rows"
    using r(2) by (simp add: map_update add_def list_update_same_conv)
  then have "mounted ((addClass i ''opened'' t)\<lparr>requested := requested t @ [mvalue member],
                 diagnostics := diagnostics t @
                 [TraceError ''domTree.fetchChildren; EXCEPTION'', Trace ''DomTree.toggleRow; level''],
               fetchedChildren := None\<rparr>) = mounted t"
    using r(1) by (simp add: mounted_def rowsOf_def addClass_def)
  with 1 show ?thesis by simp
qed

theorem toggleRow_getChildren_throws_witness:
  "fst (toggleRow (Some 4) False exampleTree) = Normal None \<and>
   mounted (snd (toggleRow (Some 4) False exampleTree)) = mounted exampleTree"
proof -
  have r: "rowAt (Some 4) exampleTree = Some (4, exampleRow 3 6 0 True [])"
    by (simp add: rowAt_def exampleTree_rows)
  have m: "getRepObject (exampleRow 3 6 0 True []) =
      Some ((createMember 3 ''dom'' ''item'' 6 0 True)\<lparr>hasProvider := True\<rparr>)"
    by (simp add: getRepObject_def exampleRow_def)
  have h: "hasChildren ((createMember 3 ''dom'' ''item'' (6::nat) 0 True)\<lparr>hasProvider := True\<rparr>)"
    by (simp add: createMember_def)
  have s: "rowState (exampleRow 3 6 0 True []) = Collapsed"
    by (simp add: rowState_def contains_def exampleRow_def)
  have g: "getChildren exampleProvider
      (mvalue ((createMember 3 ''dom'' ''item'' (6::nat) 0 True)\<lparr>hasProvider := True\<rparr>)) =
      Inl (Thrown ''getChildren'')"
    by (simp add: createMember_def exampleProvider_def)
  note th = toggleRow_getChildren_throws [OF r m h s exampleTree_fields(2,3,1) g, of False]
  show ?thesis
  proof (intro conjI)
    show "fst (toggleRow (Some 4) False exampleTree) = Normal None"
      using th by simp
    show "mounted (snd (toggleRow (Some 4) False exampleTree)) = mounted exampleTree"
      using th by blast
  qed
qed

text \<open>
  C7 as stated fails for \<open>getLabel\<close>: the label of 5, the child of 4, cannot be read,
  and toggling the row of 4 throws to the caller.
\<close>

theorem getLabel_fault_propagates:
  "fst (toggleRow (Some 3) False exampleTree) = Throw (Thrown ''getLabel'')"
  by code_simp

text \<open>
  C8. ToggleRow with forceOpen on a row that is expanded, or that waits for its children,
  does nothing: the tree is the same afterwards (rows, marks, attached callbacks) and
  nothing is returned.
\<close>

theorem toggleRow_forceOpen_noop:
  assumes "rowAt (Some i) t = Some (i, r)"
    and "rowState r = Expanded \<or> rowState r = Pending"
  shows "toggleRow (Some i) True t = (Normal None, t)"
proof -
  from assms(2) have "contains r ''opened''"
    by (auto simp: opened_iff_not_Collapsed)
  with assms(1) show ?thesis
    by (simp add: toggleRow_def split: option.splits)
qed

theorem toggleRow_forceOpen_noop_witness:
  "rowState (exampleRow 0 1 0 True [''opened'', ''spinning'']) = Pending \<and>
   toggleRow (Some 1) True pendingTree = (Normal None, pendingTree) \<and>
   rowState (exampleRow 1 2 0 True [''opened'']) = Expanded \<and>
   toggleRow (Some 2) True expandedTree = (Normal None, expandedTree)"
proof -
  have p: "rowAt (Some 1) pendingTree = Some (1, exampleRow 0 1 0 True [''opened'', ''spinning''])"
    by (simp add: rowAt_def pendingTree_rows)
  have ps: "rowState (exampleRow 0 1 0 True [''opened'', ''spinning'']) = Pending"
    by (simp add: rowState_def contains_def exampleRow_def)
  have e: "rowAt (Some 2) expandedTree = Some (2, exampleRow 1 2 0 True [''opened''])"
    by (simp add: rowAt_def expandedTree_rows)
  have es: "rowState (exampleRow 1 2 0 True [''opened'']) = Expanded"
    by (simp add: rowState_def contains_def exampleRow_def)
  from toggleRow_forceOpen_noop [OF p] toggleRow_forceOpen_noop [OF e] ps es
  show ?thesis by simp
qed

text \<open>
  C9. ToggleRow on a collapsed row whose member has \<open>hasChildren\<close> false does nothing,
  with or without forceOpen, whatever the value and the provider: no row is mounted and
  the row stays collapsed.
\<close>

theorem toggleRow_leaf_noop:
  assumes "rowAt (Some i) t = Some (i, r)"
    and "getRepObject r = Some member"
    and "\<not> hasChildren member"
    and "rowState r = Collapsed"
  shows "toggleRow (Some i) forceOpen t = (Normal None, t)"
proof -
  from assms(4) have "\<not> contains r ''opened''"
    by (simp add: opened_iff_not_Collapsed)
  with assms(1-3) show ?thesis
    by (simp add: toggleRow_def)
qed

theorem toggleRow_leaf_noop_witness:
  "rowState (exampleRow 4 3 1 False []) = Collapsed \<and>
   toggleRow (Some 3) False expandedTree = (Normal None, expandedTree)"
proof -
  have r: "rowAt (Some 3) expandedTree = Some (3, exampleRow 4 3 1 False [])"
    by (simp add: rowAt_def expandedTree_rows)
  have m: "getRepObject (exampleRow 4 3 1 False []) =
      Some ((createMember 4 ''dom'' ''item'' 3 1 False)\<lparr>hasProvider := True\<rparr>)"
    by (simp add: getRepObject_def exampleRow_def)
  have h: "\<not> hasChildren ((createMember 4 ''dom'' ''item'' (3::nat) 1 False)\<lparr>hasProvider := True\<rparr>)"
    by (simp add: createMember_def)
  have s: "rowState (exampleRow 4 3 1 False []) = Collapsed"
    by (simp add: rowState_def contains_def exampleRow_def)
  from toggleRow_leaf_noop [OF r m h s, of False] s show ?thesis by simp
qed

text \<open>
  C10. When the provider answers the fetch for the root object with a promise,
  \<open>memberIterator\<close> returns the empty array, and the render completes without throwing:
  the body holds the sizer row only, so no member row is mounted and none is expanded;
  the one change besides is the request made and the callback attached to the promise. (The tree has no member
  hook and holds no children fetched earlier.)
\<close>

theorem render_pending_root:
  assumes "provider t = Some p" and "memberProvider t = None" and "fetchedChildren t = None"
    and "getChildren p (object inp) = Inr (Promise promise)"
  shows "memberIterator (object inp) (t\<lparr>input := Some inp\<rparr>) =
           (Normal [], t\<lparr>input := Some inp, requested := requested t @ [object inp],
                         promises := promises t @ [(promise, object inp)],
                         fetchedChildren := None\<rparr>) \<and>
         replace inp noExpand t =
           (Normal (), t\<lparr>input := Some inp, requested := requested t @ [object inp],
                         promises := promises t @ [(promise, object inp)],
                         fetchedChildren := None, element := Some [sizerRowTag]\<rparr>) \<and>
         memberRows (snd (replace inp noExpand t)) = []"
  using assms
  by (simp add: replace_def append_tree_def memberIterator_def getMembers_def fetchChildren_def
      resolvePromise_def firstChild_def toggleRow_def rowAt_def getRepObject_def sizerRowTag_def
      Let_def memberRows_def rowsOf_def contains_def)

theorem render_pending_root_witness:
  "fst (memberIterator 1 (newTree\<lparr>input := Some \<lparr>object = 1, arrayLength = None\<rparr>\<rparr>)) = Normal [] \<and>
   fst (replace \<lparr>object = 1, arrayLength = None\<rparr> False newTree) = Normal () \<and>
   element (snd (replace \<lparr>object = 1, arrayLength = None\<rparr> False newTree)) = Some [sizerRowTag] \<and>
   promises (snd (replace \<lparr>object = 1, arrayLength = None\<rparr> False newTree)) = [(7, 1)]"
proof -
  have g: "getChildren exampleProvider (object \<lparr>object = 1::nat, arrayLength = None\<rparr>) = Inr (Promise 7)"
    by (simp add: exampleProvider_def)
  from render_pending_root [OF newTree_fields(1,2,3) g, of False] newTree_fields(4)
  show ?thesis by simp
qed

end
